theory Spec2Isabelle
  imports Main "HOL-Library.Sublist"
begin

section \<open>The browser: local storage, router location, console\<close>

text \<open>
  The frontend (\<^verbatim>\<open>LoginPage.jsx\<close>, \<^verbatim>\<open>DashboardPage.jsx\<close>) talks to three ambient
  objects: \<^verbatim>\<open>localStorage\<close>, the router (\<^verbatim>\<open>navigate\<close>) and \<^verbatim>\<open>console\<close>. They are
  one record that every handler takes and returns.
\<close>

type_synonym storage = "string \<rightharpoonup> string"

definition getItem :: "storage \<Rightarrow> string \<Rightarrow> string option" where
  "getItem ls k = ls k"

definition setItem :: "storage \<Rightarrow> string \<Rightarrow> string \<Rightarrow> storage" where
  "setItem ls k v = ls(k \<mapsto> v)"

definition removeItem :: "storage \<Rightarrow> string \<Rightarrow> storage" where
  "removeItem ls k = ls(k := None)"

record browser =
  localStorage :: storage
  location :: string
  console :: "string list"

definition navigate :: "string \<Rightarrow> browser \<Rightarrow> browser" where
  "navigate path br = br\<lparr>location := path\<rparr>"

text \<open>
  The route table of \<^verbatim>\<open>App\<close>: \<^verbatim>\<open>/\<close> is the login page, \<^verbatim>\<open>/dashboard\<close> the dashboard,
  and every other path is replaced by \<^verbatim>\<open>/\<close>. The argument is the pathname as the
  router matches it, that is percent-decoded. The router compares without regard to
  the case of letters and ignores slashes at the end of the pathname; the result is
  the location afterwards and the page rendered.
\<close>

datatype page_component = LoginPage | DashboardPage

definition lower_case :: "string \<Rightarrow> string" where
  "lower_case s =
     map (\<lambda>c. if 65 \<le> (of_char c :: nat) \<and> (of_char c :: nat) \<le> 90
              then char_of ((of_char c :: nat) + 32) else c) s"

definition strip_trailing_slashes :: "string \<Rightarrow> string" where
  "strip_trailing_slashes path = rev (dropWhile (\<lambda>c. c = CHR ''/'') (rev path))"

definition App :: "string \<Rightarrow> string \<times> page_component" where
  "App path =
     (let p = strip_trailing_slashes path in
      if path \<noteq> [] \<and> p = [] then (path, LoginPage)
      else if lower_case p = ''/dashboard'' then (path, DashboardPage)
      else (''/'', LoginPage))"

subsection \<open>JavaScript values that may be absent\<close>

text \<open>
  Where the code only tests a string for truth (\<^verbatim>\<open>if (x)\<close>, \<^verbatim>\<open>!x\<close>, \<^verbatim>\<open>x || y\<close>),
  \<^verbatim>\<open>undefined\<close> and \<^verbatim>\<open>null\<close> behave alike and the value is a \<open>string option\<close>, with
  \<open>None\<close> for either: an absent value and the empty string are falsy.
\<close>

definition truthy :: "string option \<Rightarrow> bool" where
  "truthy v = (case v of None \<Rightarrow> False | Some s \<Rightarrow> s \<noteq> [])"

text \<open>\<^verbatim>\<open>a || b\<close> where \<open>b\<close> is a string literal.\<close>

definition or_else :: "string option \<Rightarrow> string \<Rightarrow> string" where
  "or_else v d = (case v of None \<Rightarrow> d | Some s \<Rightarrow> if s = [] then d else s)"

text \<open>
  A string field of a JSON body whose text is stored: the field may be missing from
  the body (\<^verbatim>\<open>undefined\<close>), be JSON \<^verbatim>\<open>null\<close>, or be a string.
  \<^verbatim>\<open>localStorage.setItem(k, v)\<close> stores \<^verbatim>\<open>String(v)\<close>: the text \<^verbatim>\<open>undefined\<close> for a
  missing field, the text \<^verbatim>\<open>null\<close> for a null one, and a string as it is.
\<close>

datatype json_field = Missing | JsonNull | JsonString string

definition String_of :: "json_field \<Rightarrow> string" where
  "String_of v =
     (case v of Missing \<Rightarrow> ''undefined'' | JsonNull \<Rightarrow> ''null'' | JsonString s \<Rightarrow> s)"

text \<open>
  \<^verbatim>\<open>`${token}`\<close> for the result of \<^verbatim>\<open>getItem\<close>, which is \<^verbatim>\<open>null\<close> for a missing
  key.
\<close>

definition template_of :: "string option \<Rightarrow> string" where
  "template_of v = (case v of None \<Rightarrow> ''null'' | Some s \<Rightarrow> s)"

text \<open>Decimal text of a number, as a template literal prints an integer.\<close>

fun digits :: "nat \<Rightarrow> string" where
  "digits n =
     (if n < 10 then [char_of (48 + n)]
      else digits (n div 10) @ [char_of (48 + n mod 10)])"

declare digits.simps [simp del]

text \<open>
  \<^verbatim>\<open>const API = `${process.env.REACT_APP_API_URL || 'http://localhost:8001'}/api`\<close>
\<close>

definition API :: "string option \<Rightarrow> string" where
  "API REACT_APP_API_URL = or_else REACT_APP_API_URL ''http://localhost:8001'' @ ''/api''"

subsection \<open>Requests and their outcomes\<close>

text \<open>
  An axios promise either resolves with the response body or rejects with an error:
  axios rejects every response whose status is not 2xx, and every request that got no
  response at all (then \<^verbatim>\<open>error.response\<close> is undefined).
\<close>

record axios_error =
  response_status :: "nat option"
  response_data_error :: "string option"
  message :: "string option"

datatype 'a settled = Resolved 'a | Rejected axios_error

record post_request =
  post_url :: string
  post_body :: "(string \<times> string) list"

record get_request =
  get_url :: string
  headers :: "(string \<times> string) list"

section \<open>LoginPage\<close>

record form_data =
  email :: string
  password :: string
  username :: string

text \<open>\<^verbatim>\<open>response.data\<close> of the two authentication endpoints.\<close>

record auth_response =
  data_success :: bool
  data_token :: json_field
  data_username :: json_field
  data_error :: "string option"

record page_state =
  loading :: bool

record login_page = page_state +
  isLogin :: bool
  error :: string
  formData :: form_data

definition LoginPage_init :: login_page where
  "LoginPage_init =
     \<lparr>loading = False, isLogin = True, error = [],
      formData = \<lparr>email = [], password = [], username = []\<rparr>\<rparr>"

text \<open>
  \<^verbatim>\<open>handleSubmit\<close>. The outcome of the awaited \<^verbatim>\<open>axios.post\<close> is an argument; the
  result is the request that was posted, the browser and the page state after the
  handler has run to its end (the \<^verbatim>\<open>finally\<close> block included).
\<close>

definition handleSubmit ::
  "string \<Rightarrow> browser \<times> login_page \<Rightarrow> auth_response settled \<Rightarrow>
   post_request \<times> browser \<times> login_page" where
  "handleSubmit api s outcome =
     (let br = fst s;
          st = (snd s)\<lparr>error := [], loading := True\<rparr>;
          endpoint = (if isLogin st then ''/auth/login'' else ''/auth/signup'');
          payload =
            (if isLogin st
             then [(''email'', email (formData st)), (''password'', password (formData st))]
             else [(''email'', email (formData st)), (''password'', password (formData st)),
                   (''username'', username (formData st))]);
          req = \<lparr>post_url = api @ endpoint, post_body = payload\<rparr>;
          r =
            (case outcome of
               Resolved d \<Rightarrow>
                 if data_success d then
                   (navigate ''/dashboard''
                      (br\<lparr>localStorage :=
                            setItem (setItem (localStorage br) ''token'' (String_of (data_token d)))
                              ''username'' (String_of (data_username d))\<rparr>),
                    st)
                 else (br, st\<lparr>error := or_else (data_error d) ''Authentication failed''\<rparr>)
             | Rejected err \<Rightarrow>
                 (br, st\<lparr>error :=
                    or_else (response_data_error err)
                      (or_else (message err) ''An error occurred'')\<rparr>))
      in (req, fst r, (snd r)\<lparr>loading := False\<rparr>))"

text \<open>
  What the login form shows above its fields: \<^verbatim>\<open>{error && <Alert>...{error}...</Alert>}\<close>.
\<close>

definition LoginPage_alert :: "login_page \<Rightarrow> string option" where
  "LoginPage_alert st = (if error st \<noteq> [] then Some (error st) else None)"

text \<open>The submit button is \<^verbatim>\<open>disabled={loading}\<close>.\<close>

definition submit_enabled :: "login_page \<Rightarrow> bool" where
  "submit_enabled st = (\<not> loading st)"

section \<open>DashboardPage\<close>

text \<open>
  An asset as the list renders it. The numeric fields (\<^verbatim>\<open>amount_staked\<close>,
  \<^verbatim>\<open>current_value\<close>, \<^verbatim>\<open>apy\<close>, \<^verbatim>\<open>rewards_earned\<close>) are display data only and are
  carried as their text.
\<close>

record asset =
  asset_id :: string
  asset_name :: string
  asset_symbol :: string
  logo_url :: string
  amount_staked :: string
  current_value :: string
  apy :: string
  rewards_earned :: string

text \<open>The other response bodies are shown by the charts and cards only: kept as JSON text.\<close>

type_synonym json = string

record dashboard_page = page_state +
  overview :: "json option"
  assets :: "asset list"
  rewardsHistory :: json
  performance :: json
  dateRange :: "nat list"
  selectedAssets :: "string list"

definition DashboardPage_init :: dashboard_page where
  "DashboardPage_init =
     \<lparr>loading = True, overview = None, assets = [], rewardsHistory = ''[]'',
      performance = ''[]'', dateRange = [30], selectedAssets = []\<rparr>"

text \<open>\<^verbatim>\<open>`${dateRange[0]}`\<close>: reading index 0 of an empty array gives \<^verbatim>\<open>undefined\<close>.\<close>

definition days_of :: "nat list \<Rightarrow> string" where
  "days_of dr = (case dr of [] \<Rightarrow> ''undefined'' | d # _ \<Rightarrow> digits d)"

text \<open>
  \<^verbatim>\<open>Promise.all\<close> over the four requests. Each reply carries the instant at which it
  settles. The combined promise rejects with the rejection that settles first and
  ignores whatever settles later; it resolves only when all four resolve. Instants of
  one run of the event loop are distinct; between equal instants the earlier array
  position is taken.
\<close>

type_synonym 'a reply = "nat \<times> 'a settled"

fun earliest :: "nat \<times> axios_error \<Rightarrow> (nat \<times> axios_error) list \<Rightarrow> axios_error" where
  "earliest (t, e) [] = e"
| "earliest (t, e) ((t', e') # rest) =
     (if t' < t then earliest (t', e') rest else earliest (t, e) rest)"

fun rejections :: "'a reply \<Rightarrow> (nat \<times> axios_error) list" where
  "rejections (t, Rejected e) = [(t, e)]"
| "rejections (t, Resolved x) = []"

fun Promise_all ::
  "'a reply \<Rightarrow> 'b reply \<Rightarrow> 'c reply \<Rightarrow> 'd reply \<Rightarrow> ('a \<times> 'b \<times> 'c \<times> 'd) settled" where
  "Promise_all (ta, Resolved x) (tb, Resolved y) (tc, Resolved z) (td, Resolved w) =
     Resolved (x, y, z, w)"
| "Promise_all (ta, Rejected e) b c d =
     Rejected (earliest (ta, e) (rejections b @ rejections c @ rejections d))"
| "Promise_all a (tb, Rejected e) c d =
     Rejected (earliest (tb, e) (rejections c @ rejections d))"
| "Promise_all a b (tc, Rejected e) d = Rejected (earliest (tc, e) (rejections d))"
| "Promise_all a b c (td, Rejected e) = Rejected e"

text \<open>
  \<^verbatim>\<open>res.data\<close> of a reply that resolved. A body that is JSON \<^verbatim>\<open>null\<close> has no
  properties: reading \<^verbatim>\<open>res.data.data\<close> throws a \<^verbatim>\<open>TypeError\<close>. Of any other body
  \<^verbatim>\<open>res.data.data\<close> is the value of its \<^verbatim>\<open>data\<close> field: JSON text for the overview
  and the two histories, an array of assets for the asset list.
\<close>

datatype 'a body = NullBody | Body 'a

record replies =
  overviewRes :: "json body reply"
  assetsRes :: "asset list body reply"
  rewardsRes :: "json body reply"
  perfRes :: "json body reply"

text \<open>
  What the \<^verbatim>\<open>catch\<close> block can receive: the rejection of \<^verbatim>\<open>Promise.all\<close>, or a
  \<^verbatim>\<open>TypeError\<close> thrown between the \<^verbatim>\<open>await\<close> and the end of the \<^verbatim>\<open>try\<close> block.
  \<open>status_of\<close> is \<^verbatim>\<open>error.response?.status\<close>; a \<^verbatim>\<open>TypeError\<close> has no \<^verbatim>\<open>response\<close>.
\<close>

datatype caught = AxiosError axios_error | TypeError

definition status_of :: "caught \<Rightarrow> nat option" where
  "status_of e = (case e of AxiosError err \<Rightarrow> response_status err | TypeError \<Rightarrow> None)"

text \<open>The four \<^verbatim>\<open>axios.get\<close> calls of \<^verbatim>\<open>fetchDashboardData\<close>, in the order of the array.\<close>

definition fetch_requests :: "string \<Rightarrow> browser \<Rightarrow> dashboard_page \<Rightarrow> get_request list" where
  "fetch_requests api br st =
     (let token = getItem (localStorage br) ''token'';
          hs = [(''Authorization'', ''Bearer '' @ template_of token)]
      in [\<lparr>get_url = api @ ''/staking/overview'', headers = hs\<rparr>,
          \<lparr>get_url = api @ ''/staking/assets'', headers = hs\<rparr>,
          \<lparr>get_url = api @ ''/staking/rewards-history?days='' @ days_of (dateRange st),
            headers = hs\<rparr>,
          \<lparr>get_url = api @ ''/staking/performance?days='' @ days_of (dateRange st),
            headers = hs\<rparr>])"

text \<open>
  The \<^verbatim>\<open>try\<close> block after its requests are issued: the awaited \<^verbatim>\<open>Promise.all\<close>, then
  the four setters in their order, each reading \<^verbatim>\<open>res.data.data\<close> before it is
  called, then \<^verbatim>\<open>setLoading(false)\<close>. The result is the error thrown, if any, and
  the page state with the setters that ran before it.
\<close>

definition try_block :: "dashboard_page \<Rightarrow> replies \<Rightarrow> caught option \<times> dashboard_page" where
  "try_block st rs =
     (case Promise_all (overviewRes rs) (assetsRes rs) (rewardsRes rs) (perfRes rs) of
        Rejected err \<Rightarrow> (Some (AxiosError err), st)
      | Resolved (ov, asts, rw, pf) \<Rightarrow>
          (case ov of
             NullBody \<Rightarrow> (Some TypeError, st)
           | Body v1 \<Rightarrow>
               (let st1 = st\<lparr>overview := Some v1\<rparr> in
                case asts of
                  NullBody \<Rightarrow> (Some TypeError, st1)
                | Body v2 \<Rightarrow>
                    (let st2 = st1\<lparr>assets := v2\<rparr> in
                     case rw of
                       NullBody \<Rightarrow> (Some TypeError, st2)
                     | Body v3 \<Rightarrow>
                         (let st3 = st2\<lparr>rewardsHistory := v3\<rparr> in
                          case pf of
                            NullBody \<Rightarrow> (Some TypeError, st3)
                          | Body v4 \<Rightarrow>
                              (None, st3\<lparr>performance := v4, loading := False\<rparr>))))))"

text \<open>The \<^verbatim>\<open>catch\<close> block.\<close>

definition catch_block :: "caught \<Rightarrow> browser \<Rightarrow> browser" where
  "catch_block e br =
     (let br1 = br\<lparr>console := console br @ [''Error fetching dashboard data:'']\<rparr> in
      if status_of e = Some 401
      then navigate ''/'' (br1\<lparr>localStorage := removeItem (localStorage br1) ''token''\<rparr>)
      else br1)"

text \<open>
  \<^verbatim>\<open>fetchDashboardData\<close>: the requests it issues, and the browser and page state once
  the \<^verbatim>\<open>try\<close>/\<^verbatim>\<open>catch\<close> has run.
\<close>

definition fetchDashboardData ::
  "string \<Rightarrow> browser \<times> dashboard_page \<Rightarrow> replies \<Rightarrow>
   get_request list \<times> browser \<times> dashboard_page" where
  "fetchDashboardData api s rs =
     (let br = fst s; st = snd s in
      (fetch_requests api br st,
       (case try_block st rs of
          (None, st') \<Rightarrow> (br, st')
        | (Some e, st') \<Rightarrow> (catch_block e br, st'))))"

text \<open>The body of the \<^verbatim>\<open>useEffect\<close>, run on mount and whenever \<^verbatim>\<open>dateRange\<close> changes.\<close>

definition DashboardPage_effect ::
  "string \<Rightarrow> browser \<times> dashboard_page \<Rightarrow> replies \<Rightarrow>
   get_request list \<times> browser \<times> dashboard_page" where
  "DashboardPage_effect api s rs =
     (let token = getItem (localStorage (fst s)) ''token'' in
      if \<not> truthy token then ([], navigate ''/'' (fst s), snd s)
      else fetchDashboardData api s rs)"

definition handleLogout :: "browser \<Rightarrow> browser" where
  "handleLogout br =
     navigate ''/''
       (br\<lparr>localStorage := removeItem (removeItem (localStorage br) ''token'') ''username''\<rparr>)"

text \<open>\<^verbatim>\<open>Array.prototype.includes\<close> on an array of strings.\<close>

fun array_includes :: "string list \<Rightarrow> string \<Rightarrow> bool" where
  "array_includes [] v = False"
| "array_includes (x # xs) v = (if x = v then True else array_includes xs v)"

definition filteredAssets :: "dashboard_page \<Rightarrow> asset list" where
  "filteredAssets st =
     (if length (selectedAssets st) > 0
      then filter (\<lambda>a. array_includes (selectedAssets st) (asset_symbol a)) (assets st)
      else assets st)"

text \<open>
  What the dashboard renders: the loading message while \<^verbatim>\<open>loading\<close> is set, otherwise
  the cards, the two charts, the slider and the asset list. No element of either
  branch reads an error.
\<close>

datatype dashboard_view =
  LoadingScreen
  | Dashboard "json option" json json "nat list" "asset list"

definition DashboardPage_render :: "dashboard_page \<Rightarrow> dashboard_view" where
  "DashboardPage_render st =
     (if loading st then LoadingScreen
      else Dashboard (overview st) (performance st) (rewardsHistory st) (dateRange st)
             (filteredAssets st))"

section \<open>The authentication backend\<close>

text \<open>
  The credential store and the token issuer live in \<^verbatim>\<open>backend/server.py\<close>, which is
  not among the sources this development has: only its callers (the two pages above)
  and its description are. The definitions of this section follow the specification's
  contracts of \<^verbatim>\<open>register\<close>, \<^verbatim>\<open>verify\<close>, \<^verbatim>\<open>issue\<close> and \<^verbatim>\<open>validate\<close>. The two library
  primitives, the password hash (bcrypt) and the token signature (JWT), are parameters.
\<close>

datatype auth_error = DuplicateEmail | InvalidCredentials | TokenExpired | TokenInvalid | Unauthorized

text \<open>
  Modelled from the spec: the salted password hash. A key derivation function takes
  the cost factor, the salt and the password; the stored hash carries the cost and
  the salt beside the digest, and a comparison derives the digest again from them.
\<close>

type_synonym kdf = "nat \<Rightarrow> string \<Rightarrow> string \<Rightarrow> string"

record password_hash =
  hash_cost :: nat
  hash_salt :: string
  hash_digest :: string

definition cost_factor :: nat where
  "cost_factor = 12"

definition hash_password :: "kdf \<Rightarrow> string \<Rightarrow> string \<Rightarrow> password_hash" where
  "hash_password f salt pw =
     \<lparr>hash_cost = cost_factor, hash_salt = salt, hash_digest = f cost_factor salt pw\<rparr>"

definition check_password :: "kdf \<Rightarrow> string \<Rightarrow> password_hash \<Rightarrow> bool" where
  "check_password f pw h = (f (hash_cost h) (hash_salt h) pw = hash_digest h)"

text \<open>
  Modelled from the spec: the User of the data model (unique identifier, unique
  email, username, salted password hash, creation timestamp) and the server's state:
  the credential store and the server secret.
\<close>

record user =
  user_id :: string
  user_email :: string
  user_username :: string
  user_password_hash :: password_hash
  created_at :: int

record server =
  users :: "user list"
  secret :: string

text \<open>What a registration draws from its environment: an identifier, a salt, the time.\<close>

record registration_env =
  new_id :: string
  new_salt :: string
  clock :: int

text \<open>
  Modelled from the spec: \<^verbatim>\<open>register(email, username, password)\<close> fails with
  \<open>DuplicateEmail\<close> if the email exists; otherwise it stores a salted hash of the
  password and returns a new User. The persistent write is the second component.
\<close>

definition register ::
  "kdf \<Rightarrow> registration_env \<Rightarrow> server \<Rightarrow> string \<Rightarrow> string \<Rightarrow> string \<Rightarrow>
   (auth_error + user) \<times> server" where
  "register f env srv em un pw =
     (case find (\<lambda>u. user_email u = em) (users srv) of
        Some _ \<Rightarrow> (Inl DuplicateEmail, srv)
      | None \<Rightarrow>
          (let u = \<lparr>user_id = new_id env, user_email = em, user_username = un,
                    user_password_hash = hash_password f (new_salt env) pw,
                    created_at = clock env\<rparr>
           in (Inr u, srv\<lparr>users := users srv @ [u]\<rparr>)))"

text \<open>
  Modelled from the spec: \<^verbatim>\<open>verify(email, password)\<close> fails with
  \<open>InvalidCredentials\<close> if no user matches the email or the hash comparison fails;
  otherwise it returns the User. Read-only.
\<close>

definition verify :: "kdf \<Rightarrow> server \<Rightarrow> string \<Rightarrow> string \<Rightarrow> auth_error + user" where
  "verify f srv em pw =
     (case find (\<lambda>u. user_email u = em) (users srv) of
        None \<Rightarrow> Inl InvalidCredentials
      | Some u \<Rightarrow>
          if check_password f pw (user_password_hash u) then Inr u
          else Inl InvalidCredentials)"

text \<open>
  Modelled from the spec: the Session Token, a signed string that embeds the user's
  id and email and an absolute expiry. A string that does not decode is \<open>Malformed\<close>;
  one that decodes is its claims and its signature.
\<close>

record identity =
  ident_id :: string
  ident_email :: string

record token_claims =
  claim_identity :: identity
  expiry :: int

type_synonym signer = "string \<Rightarrow> token_claims \<Rightarrow> string"

datatype session_token = Malformed string | Signed token_claims string

definition seven_days :: int where
  "seven_days = 7 * 24 * 60 * 60"

definition identity_of :: "user \<Rightarrow> identity" where
  "identity_of u = \<lparr>ident_id = user_id u, ident_email = user_email u\<rparr>"

text \<open>
  Modelled from the spec: \<^verbatim>\<open>issue(user)\<close> produces a signed token embedding user
  id/email and an absolute expiry (now + 7 days).
\<close>

definition issue :: "signer \<Rightarrow> server \<Rightarrow> int \<Rightarrow> user \<Rightarrow> session_token" where
  "issue sg srv now u =
     (let c = \<lparr>claim_identity = identity_of u, expiry = now + seven_days\<rparr>
      in Signed c (sg (secret srv) c))"

text \<open>
  Modelled from the spec: a token is valid only if its signature verifies against
  the server secret and its expiry has not elapsed.
\<close>

definition signature_verifies :: "signer \<Rightarrow> server \<Rightarrow> session_token \<Rightarrow> bool" where
  "signature_verifies sg srv tok =
     (case tok of Malformed _ \<Rightarrow> False | Signed c s \<Rightarrow> s = sg (secret srv) c)"

definition expiry_elapsed :: "int \<Rightarrow> session_token \<Rightarrow> bool" where
  "expiry_elapsed now tok =
     (case tok of Malformed _ \<Rightarrow> False | Signed c s \<Rightarrow> expiry c < now)"

definition embedded_identity :: "session_token \<Rightarrow> identity option" where
  "embedded_identity tok =
     (case tok of Malformed _ \<Rightarrow> None | Signed c s \<Rightarrow> Some (claim_identity c))"

text \<open>
  Modelled from the spec: \<^verbatim>\<open>validate(token)\<close> fails with \<open>TokenExpired\<close> or
  \<open>TokenInvalid\<close> (malformed/bad signature) and otherwise returns the embedded
  identity; a function of the token, the server secret and the current time. The
  signature is checked before the expiry is read.
\<close>

definition validate :: "signer \<Rightarrow> server \<Rightarrow> int \<Rightarrow> session_token \<Rightarrow> auth_error + identity" where
  "validate sg srv now tok =
     (case tok of
        Malformed _ \<Rightarrow> Inl TokenInvalid
      | Signed c s \<Rightarrow>
          if s \<noteq> sg (secret srv) c then Inl TokenInvalid
          else if expiry c < now then Inl TokenExpired
          else Inr (claim_identity c))"

text \<open>Modelled from the spec: the invariant of the store, one User record per email.\<close>

definition one_per_email :: "server \<Rightarrow> bool" where
  "one_per_email srv = distinct (map user_email (users srv))"

text \<open>A run of registrations, one after the other, whatever their results.\<close>

fun registrations ::
  "kdf \<Rightarrow> server \<Rightarrow> (registration_env \<times> string \<times> string \<times> string) list \<Rightarrow> server" where
  "registrations f srv [] = srv"
| "registrations f srv ((env, em, un, pw) # rest) =
     registrations f (snd (register f env srv em un pw)) rest"

section \<open>Example inputs\<close>

definition eth :: asset where
  "eth = \<lparr>asset_id = ''1'', asset_name = ''Ethereum'', asset_symbol = ''ETH'',
           logo_url = [], amount_staked = ''32.00'', current_value = ''96,000'',
           apy = ''4.50'', rewards_earned = ''12.00''\<rparr>"

definition dot :: asset where
  "dot = \<lparr>asset_id = ''2'', asset_name = ''Polkadot'', asset_symbol = ''DOT'',
           logo_url = [], amount_staked = ''500.00'', current_value = ''3,500'',
           apy = ''14.00'', rewards_earned = ''7.00''\<rparr>"

definition fresh_browser :: browser where
  "fresh_browser = \<lparr>localStorage = Map.empty, location = ''/'', console = []\<rparr>"

text \<open>A browser in which a user is logged in and looks at the dashboard.\<close>

definition logged_in :: browser where
  "logged_in =
     \<lparr>localStorage = [''token'' \<mapsto> ''abc'', ''username'' \<mapsto> ''alice''],
      location = ''/dashboard'', console = []\<rparr>"

definition login_ok :: auth_response where
  "login_ok = \<lparr>data_success = True, data_token = JsonString ''abc'',
                data_username = JsonString ''alice'', data_error = None\<rparr>"

definition login_refused :: auth_response where
  "login_refused = \<lparr>data_success = False, data_token = Missing, data_username = Missing,
                     data_error = Some ''Invalid credentials''\<rparr>"

definition unauthorized :: axios_error where
  "unauthorized = \<lparr>response_status = Some 401, response_data_error = None,
                    message = Some ''Request failed with status code 401''\<rparr>"

definition server_error :: axios_error where
  "server_error = \<lparr>response_status = Some 500, response_data_error = None,
                    message = Some ''Request failed with status code 500''\<rparr>"

definition network_error :: axios_error where
  "network_error = \<lparr>response_status = None, response_data_error = None,
                     message = Some ''Network Error''\<rparr>"

text \<open>All four requests are answered 401, one after the other.\<close>

definition all_unauthorized :: replies where
  "all_unauthorized =
     \<lparr>overviewRes = (1, Rejected unauthorized), assetsRes = (2, Rejected unauthorized),
      rewardsRes = (3, Rejected unauthorized), perfRes = (4, Rejected unauthorized)\<rparr>"

text \<open>
  The overview request gets no response (a network error) at instant 1; the other
  three are answered 401 afterwards.
\<close>

definition network_then_unauthorized :: replies where
  "network_then_unauthorized =
     \<lparr>overviewRes = (1, Rejected network_error), assetsRes = (2, Rejected unauthorized),
      rewardsRes = (3, Rejected unauthorized), perfRes = (4, Rejected unauthorized)\<rparr>"

text \<open>The assets request is answered 500; the other three succeed.\<close>

definition one_server_error :: replies where
  "one_server_error =
     \<lparr>overviewRes = (1, Resolved (Body ''{}'')), assetsRes = (2, Rejected server_error),
      rewardsRes = (3, Resolved (Body ''[]'')), perfRes = (4, Resolved (Body ''[]''))\<rparr>"

text \<open>All four requests are answered 200; the body of the assets reply is JSON null.\<close>

definition null_assets_body :: replies where
  "null_assets_body =
     \<lparr>overviewRes = (1, Resolved (Body ''{}'')), assetsRes = (2, Resolved NullBody),
      rewardsRes = (3, Resolved (Body ''[]'')), perfRes = (4, Resolved (Body ''[]''))\<rparr>"

text \<open>Stand-ins for the two library primitives, and a server with no user yet.\<close>

definition toy_kdf :: kdf where
  "toy_kdf cost salt pw = salt @ ''$'' @ pw"

definition toy_signer :: signer where
  "toy_signer k c = k @ ''.'' @ ident_id (claim_identity c) @ ''.'' @ ident_email (claim_identity c)"

definition empty_server :: server where
  "empty_server = \<lparr>users = [], secret = ''s3cret''\<rparr>"

definition env1 :: registration_env where
  "env1 = \<lparr>new_id = ''u1'', new_salt = ''NaCl'', clock = 1000\<rparr>"

definition env2 :: registration_env where
  "env2 = \<lparr>new_id = ''u2'', new_salt = ''KCl'', clock = 2000\<rparr>"

definition alice :: user where
  "alice = \<lparr>user_id = ''u1'', user_email = ''a@x.com'', user_username = ''a'',
             user_password_hash = hash_password toy_kdf ''NaCl'' ''pw123456'',
             created_at = 1000\<rparr>"

definition alice_token :: session_token where
  "alice_token = issue toy_signer empty_server 1000 alice"

section \<open>The route table\<close>

lemma App_root: "App ''/'' = (''/'', LoginPage)"
  by (simp add: App_def strip_trailing_slashes_def)

lemma App_dashboard: "App ''/dashboard'' = (''/dashboard'', DashboardPage)"
  by code_simp

lemma App_dashboard_variants:
  "App ''/Dashboard/'' = (''/Dashboard/'', DashboardPage)"
  "App ''/settings'' = (''/'', LoginPage)"
  by code_simp+

section \<open>The asset filter\<close>

lemma includes_set: "array_includes xs v \<longleftrightarrow> v \<in> set xs"
  by (induction xs) auto

lemma count_list_filter_kept: "P a \<Longrightarrow> count_list (filter P xs) a = count_list xs a"
  by (induction xs) auto

text \<open>
  C10. With no asset selected the filter returns the asset list as it is; otherwise it
  returns the assets whose symbol is selected, in their original order: the result is
  a subsequence of the list, holds exactly the assets with a selected symbol, and
  keeps each of them as often as the list has it.
\<close>

theorem filteredAssets_spec:
  "(selectedAssets st = [] \<longrightarrow> filteredAssets st = assets st) \<and>
   (selectedAssets st \<noteq> [] \<longrightarrow>
      filteredAssets st = filter (\<lambda>a. asset_symbol a \<in> set (selectedAssets st)) (assets st) \<and>
      subseq (filteredAssets st) (assets st) \<and>
      set (filteredAssets st) = {a \<in> set (assets st). asset_symbol a \<in> set (selectedAssets st)} \<and>
      (\<forall>a::asset. asset_symbol a \<in> set (selectedAssets st) \<longrightarrow>
           count_list (filteredAssets st) a = count_list (assets st) a))"
proof (intro conjI impI allI)
  assume "selectedAssets st = []"
  then show "filteredAssets st = assets st"
    by (simp add: filteredAssets_def)
next
  assume ne: "selectedAssets st \<noteq> []"
  then show eq: "filteredAssets st = filter (\<lambda>a. asset_symbol a \<in> set (selectedAssets st)) (assets st)"
    by (simp add: filteredAssets_def includes_set)
  show "subseq (filteredAssets st) (assets st)"
    by (simp add: eq)
  show "set (filteredAssets st) = {a \<in> set (assets st). asset_symbol a \<in> set (selectedAssets st)}"
    by (simp add: eq)
  fix a :: asset
  assume "asset_symbol a \<in> set (selectedAssets st)"
  then show "count_list (filteredAssets st) a = count_list (assets st) a"
    unfolding eq by (rule count_list_filter_kept)
qed

theorem filteredAssets_spec_witness:
  "selectedAssets (DashboardPage_init\<lparr>assets := [eth, dot, eth], selectedAssets := [''ETH'']\<rparr>) \<noteq> [] \<and>
   filteredAssets (DashboardPage_init\<lparr>assets := [eth, dot, eth], selectedAssets := [''ETH'']\<rparr>)
     = [eth, eth] \<and>
   selectedAssets (DashboardPage_init\<lparr>assets := [eth, dot, eth]\<rparr>) = [] \<and>
   filteredAssets (DashboardPage_init\<lparr>assets := [eth, dot, eth]\<rparr>) = [eth, dot, eth]"
  using filteredAssets_spec [of "DashboardPage_init\<lparr>assets := [eth, dot, eth], selectedAssets := [''ETH'']\<rparr>"]
    filteredAssets_spec [of "DashboardPage_init\<lparr>assets := [eth, dot, eth]\<rparr>"]
  by (simp add: DashboardPage_init_def eth_def dot_def)

section \<open>Storing the token and attaching it\<close>

lemma fetch_requests_headers:
  "r \<in> set (fetch_requests api br st) \<Longrightarrow>
   headers r = [(''Authorization'', ''Bearer '' @ template_of (getItem (localStorage br) ''token''))]"
  by (auto simp: fetch_requests_def Let_def)

lemma fetch_requests_length: "length (fetch_requests api br st) = 4"
  by (simp add: fetch_requests_def Let_def)

lemma fetchDashboardData_requests:
  "fst (fetchDashboardData api s rs) = fetch_requests api (fst s) (snd s)"
  by (simp add: fetchDashboardData_def Let_def)

lemma handleSubmit_success:
  "data_success d \<Longrightarrow>
   fst (snd (handleSubmit api (br, st) (Resolved d))) =
     br\<lparr>localStorage := (localStorage br)(''token'' \<mapsto> String_of (data_token d),
                                           ''username'' \<mapsto> String_of (data_username d)),
        location := ''/dashboard''\<rparr>"
  by (simp add: handleSubmit_def Let_def navigate_def setItem_def)

text \<open>
  C5. After a response with \<^verbatim>\<open>success\<close> set, local storage holds the returned token
  under \<^verbatim>\<open>token\<close> and the returned username under \<^verbatim>\<open>username\<close> (\<open>String_of (JsonString t)\<close>
  is \<open>t\<close>), every other key is as before, and the router is at \<^verbatim>\<open>/dashboard\<close>. In
  any later browser state whose storage holds a non-empty token, the dashboard's
  effect issues its four requests, and each carries exactly the header
  \<^verbatim>\<open>Authorization: Bearer <stored token>\<close>; in particular right after the login.
\<close>

theorem token_stored_and_attached:
  assumes "data_success d"
    and "br' = fst (snd (handleSubmit api (br, st) (Resolved d)))"
  shows "getItem (localStorage br') ''token'' = Some (String_of (data_token d)) \<and>
         getItem (localStorage br') ''username'' = Some (String_of (data_username d)) \<and>
         (\<forall>k. k \<noteq> ''token'' \<and> k \<noteq> ''username'' \<longrightarrow>
              getItem (localStorage br') k = getItem (localStorage br) k) \<and>
         location br' = ''/dashboard'' \<and>
         (\<forall>b dst rs tok. getItem (localStorage b) ''token'' = Some tok \<and> tok \<noteq> [] \<longrightarrow>
              length (fst (DashboardPage_effect api (b, dst) rs)) = 4 \<and>
              (\<forall>r \<in> set (fst (DashboardPage_effect api (b, dst) rs)).
                  headers r = [(''Authorization'', ''Bearer '' @ tok)])) \<and>
         (String_of (data_token d) \<noteq> [] \<longrightarrow>
            (\<forall>dst rs. \<forall>r \<in> set (fst (DashboardPage_effect api (br', dst) rs)).
                headers r = [(''Authorization'', ''Bearer '' @ String_of (data_token d))]))"
proof -
  have br': "br' = br\<lparr>localStorage := (localStorage br)(''token'' \<mapsto> String_of (data_token d),
                                           ''username'' \<mapsto> String_of (data_username d)),
                     location := ''/dashboard''\<rparr>"
    using assms by (simp add: handleSubmit_success)
  have attach: "length (fst (DashboardPage_effect api (b, dst) rs)) = 4 \<and>
      (\<forall>r \<in> set (fst (DashboardPage_effect api (b, dst) rs)).
          headers r = [(''Authorization'', ''Bearer '' @ tok)])"
    if "getItem (localStorage b) ''token'' = Some tok" and "tok \<noteq> []" for b dst rs tok
  proof -
    have "fst (DashboardPage_effect api (b, dst) rs) = fetch_requests api b dst"
      using that by (simp add: DashboardPage_effect_def truthy_def fetchDashboardData_requests)
    then show ?thesis
      using that by (auto simp: fetch_requests_length template_of_def dest!: fetch_requests_headers)
  qed
  have stored: "getItem (localStorage br') ''token'' = Some (String_of (data_token d))"
    by (simp add: br' getItem_def)
  show ?thesis
  proof (intro conjI allI impI)
    show "getItem (localStorage br') ''token'' = Some (String_of (data_token d))"
      by (rule stored)
    show "getItem (localStorage br') ''username'' = Some (String_of (data_username d))"
      by (simp add: br' getItem_def)
    show "location br' = ''/dashboard''"
      by (simp add: br')
  next
    fix k :: string
    assume "k \<noteq> ''token'' \<and> k \<noteq> ''username''"
    then show "getItem (localStorage br') k = getItem (localStorage br) k"
      by (simp add: br' getItem_def)
  next
    fix b :: browser and dst :: dashboard_page and rs :: replies and tok :: string
    assume "getItem (localStorage b) ''token'' = Some tok \<and> tok \<noteq> []"
    then show "length (fst (DashboardPage_effect api (b, dst) rs)) = 4"
      and "\<forall>r \<in> set (fst (DashboardPage_effect api (b, dst) rs)).
             headers r = [(''Authorization'', ''Bearer '' @ tok)]"
      using attach [of b tok dst rs] by simp_all
  next
    fix dst :: dashboard_page and rs :: replies
    assume "String_of (data_token d) \<noteq> []"
    then show "\<forall>r \<in> set (fst (DashboardPage_effect api (br', dst) rs)).
        headers r = [(''Authorization'', ''Bearer '' @ String_of (data_token d))]"
      using attach [OF stored, of dst rs] by simp
  qed
qed

theorem token_stored_and_attached_witness:
  "data_success login_ok \<and>
   getItem (localStorage (fst (snd (handleSubmit (API None) (fresh_browser, LoginPage_init)
      (Resolved login_ok))))) ''token'' = Some ''abc'' \<and>
   getItem (localStorage (fst (snd (handleSubmit (API None) (fresh_browser, LoginPage_init)
      (Resolved login_ok))))) ''username'' = Some ''alice'' \<and>
   location (fst (snd (handleSubmit (API None) (fresh_browser, LoginPage_init)
      (Resolved login_ok)))) = ''/dashboard'' \<and>
   map headers (fst (DashboardPage_effect (API None) (logged_in, DashboardPage_init) all_unauthorized))
     = replicate 4 [(''Authorization'', ''Bearer abc'')]"
proof -
  have ok: "data_success login_ok"
    by (simp add: login_ok_def)
  note th = token_stored_and_attached [OF ok refl, of "API None" fresh_browser LoginPage_init]
  from th have a: "getItem (localStorage (fst (snd (handleSubmit (API None)
      (fresh_browser, LoginPage_init) (Resolved login_ok))))) ''token'' = Some ''abc''"
    by (simp add: login_ok_def String_of_def)
  from th have b: "getItem (localStorage (fst (snd (handleSubmit (API None)
      (fresh_browser, LoginPage_init) (Resolved login_ok))))) ''username'' = Some ''alice''"
    by (simp add: login_ok_def String_of_def)
  from th have c: "location (fst (snd (handleSubmit (API None)
      (fresh_browser, LoginPage_init) (Resolved login_ok)))) = ''/dashboard''"
    by simp
  have d: "map headers (fst (DashboardPage_effect (API None) (logged_in, DashboardPage_init)
      all_unauthorized)) = replicate 4 [(''Authorization'', ''Bearer abc'')]"
    by (simp add: DashboardPage_effect_def fetchDashboardData_def fetch_requests_def Let_def
        logged_in_def getItem_def truthy_def template_of_def numeral_eq_Suc)
  show ?thesis
    using ok a b c d by simp
qed

section \<open>Visiting the dashboard without a token\<close>

text \<open>
  C8. When local storage has no \<^verbatim>\<open>token\<close>, the dashboard's effect issues no request
  at all and sends the router to \<^verbatim>\<open>/\<close>, which \<^verbatim>\<open>App\<close> routes to the login page;
  storage and page state are left as they were.
\<close>

theorem no_token_redirects:
  assumes "getItem (localStorage br) ''token'' = None"
  shows "DashboardPage_effect api (br, st) rs = ([], br\<lparr>location := ''/''\<rparr>, st) \<and>
         App (location (fst (snd (DashboardPage_effect api (br, st) rs)))) = (''/'', LoginPage)"
  using assms by (simp add: DashboardPage_effect_def truthy_def navigate_def App_root)

theorem no_token_redirects_witness:
  "getItem (localStorage (fresh_browser\<lparr>location := ''/dashboard''\<rparr>)) ''token'' = None \<and>
   DashboardPage_effect (API None) (fresh_browser\<lparr>location := ''/dashboard''\<rparr>, DashboardPage_init)
     all_unauthorized
     = ([], fresh_browser, DashboardPage_init)"
proof -
  have h: "getItem (localStorage (fresh_browser\<lparr>location := ''/dashboard''\<rparr>)) ''token'' = None"
    by (simp add: fresh_browser_def getItem_def)
  show ?thesis
    using h no_token_redirects [OF h, of "API None" DashboardPage_init all_unauthorized]
    by (simp add: fresh_browser_def)
qed

section \<open>A 401 on the dashboard\<close>

lemma fetchDashboardData_rejected:
  assumes "Promise_all (overviewRes rs) (assetsRes rs) (rewardsRes rs) (perfRes rs) = Rejected err"
  shows "snd (fetchDashboardData api (br, st) rs) =
     (if response_status err = Some 401
      then (br\<lparr>localStorage := (localStorage br)(''token'' := None), location := ''/'',
               console := console br @ [''Error fetching dashboard data:'']\<rparr>, st)
      else (br\<lparr>console := console br @ [''Error fetching dashboard data:'']\<rparr>, st))"
  using assms
  by (simp add: fetchDashboardData_def try_block_def catch_block_def status_of_def Let_def
      navigate_def removeItem_def)

text \<open>
  C6, as the code has it. The \<^verbatim>\<open>catch\<close> block sees one error only: the rejection with
  which \<^verbatim>\<open>Promise.all\<close> rejects, that is the first of the four requests to fail. When
  that error carries status 401, the token is removed from local storage and the
  router goes to \<^verbatim>\<open>/\<close>, the login page.
\<close>

theorem unauthorized_forces_logout:
  assumes "Promise_all (overviewRes rs) (assetsRes rs) (rewardsRes rs) (perfRes rs) = Rejected err"
    and "response_status err = Some 401"
    and "br' = fst (snd (fetchDashboardData api (br, st) rs))"
  shows "getItem (localStorage br') ''token'' = None \<and>
         location br' = ''/'' \<and>
         App (location br') = (''/'', LoginPage)"
  using assms by (simp add: fetchDashboardData_rejected getItem_def App_root)

theorem unauthorized_forces_logout_witness:
  "Promise_all (overviewRes all_unauthorized) (assetsRes all_unauthorized)
     (rewardsRes all_unauthorized) (perfRes all_unauthorized) = Rejected unauthorized \<and>
   response_status unauthorized = Some 401 \<and>
   getItem (localStorage (fst (snd (fetchDashboardData (API None) (logged_in, DashboardPage_init)
      all_unauthorized)))) ''token'' = None \<and>
   location (fst (snd (fetchDashboardData (API None) (logged_in, DashboardPage_init)
      all_unauthorized))) = ''/''"
proof -
  have p: "Promise_all (overviewRes all_unauthorized) (assetsRes all_unauthorized)
     (rewardsRes all_unauthorized) (perfRes all_unauthorized) = Rejected unauthorized"
    by (simp add: all_unauthorized_def)
  have q: "response_status unauthorized = Some 401"
    by (simp add: unauthorized_def)
  show ?thesis
    using p q unauthorized_forces_logout [OF p q refl, of "API None" logged_in DashboardPage_init]
    by simp
qed

text \<open>
  The same does not hold of every response with status 401: here the overview
  request fails first with a network error and the three other requests are
  answered 401. \<^verbatim>\<open>Promise.all\<close> rejects with the network error, whose
  \<^verbatim>\<open>response\<close> is undefined, so the token stays in local storage and the router stays
  on the dashboard.
\<close>

theorem unauthorized_after_other_failure_counterexample:
  "snd (assetsRes network_then_unauthorized) = Rejected unauthorized \<and>
   response_status unauthorized = Some 401 \<and>
   getItem (localStorage (fst (snd (fetchDashboardData (API None) (logged_in, DashboardPage_init)
      network_then_unauthorized)))) ''token'' = Some ''abc'' \<and>
   location (fst (snd (fetchDashboardData (API None) (logged_in, DashboardPage_init)
      network_then_unauthorized))) = ''/dashboard''"
  by (simp add: fetchDashboardData_def try_block_def catch_block_def status_of_def Let_def
      network_then_unauthorized_def unauthorized_def network_error_def logged_in_def getItem_def)

section \<open>What a 401 removes and what logout removes\<close>

text \<open>
  C9. When the error caught by \<^verbatim>\<open>fetchDashboardData\<close> has status 401, local storage
  afterwards is the storage before with the key \<^verbatim>\<open>token\<close> removed and nothing else
  changed: \<^verbatim>\<open>username\<close> keeps its value. \<^verbatim>\<open>handleLogout\<close> removes both \<^verbatim>\<open>token\<close>
  and \<^verbatim>\<open>username\<close> and changes no other key.
\<close>

theorem unauthorized_keeps_username:
  assumes "Promise_all (overviewRes rs) (assetsRes rs) (rewardsRes rs) (perfRes rs) = Rejected err"
    and "response_status err = Some 401"
  shows "localStorage (fst (snd (fetchDashboardData api (br, st) rs)))
           = (localStorage br)(''token'' := None) \<and>
         getItem (localStorage (fst (snd (fetchDashboardData api (br, st) rs)))) ''username''
           = getItem (localStorage br) ''username'' \<and>
         localStorage (handleLogout br) = (localStorage br)(''token'' := None, ''username'' := None) \<and>
         getItem (localStorage (handleLogout br)) ''token'' = None \<and>
         getItem (localStorage (handleLogout br)) ''username'' = None"
  using assms
  by (simp add: fetchDashboardData_rejected getItem_def handleLogout_def navigate_def removeItem_def)

theorem unauthorized_keeps_username_witness:
  "Promise_all (overviewRes all_unauthorized) (assetsRes all_unauthorized)
     (rewardsRes all_unauthorized) (perfRes all_unauthorized) = Rejected unauthorized \<and>
   response_status unauthorized = Some 401 \<and>
   localStorage (fst (snd (fetchDashboardData (API None) (logged_in, DashboardPage_init)
      all_unauthorized))) = [''username'' \<mapsto> ''alice''] \<and>
   localStorage (handleLogout logged_in) = Map.empty"
proof -
  have p: "Promise_all (overviewRes all_unauthorized) (assetsRes all_unauthorized)
     (rewardsRes all_unauthorized) (perfRes all_unauthorized) = Rejected unauthorized"
    by (simp add: all_unauthorized_def)
  have q: "response_status unauthorized = Some 401"
    by (simp add: unauthorized_def)
  show ?thesis
    using p q unauthorized_keeps_username [OF p q, of "API None" logged_in DashboardPage_init]
    by (auto simp: logged_in_def fun_eq_iff)
qed

section \<open>Failures other than a 401\<close>

lemma or_else_nonempty: "d \<noteq> [] \<Longrightarrow> or_else v d \<noteq> []"
  by (simp add: or_else_def split: option.split)

lemma handleSubmit_failure:
  assumes "outcome = Rejected err \<or> (outcome = Resolved d \<and> \<not> data_success d)"
  shows "fst (snd (handleSubmit api (br, st) outcome)) = br"
    and "error (snd (snd (handleSubmit api (br, st) outcome))) =
           (case outcome of
              Resolved d \<Rightarrow> or_else (data_error d) ''Authentication failed''
            | Rejected err \<Rightarrow> or_else (response_data_error err)
                                (or_else (message err) ''An error occurred''))"
    and "\<not> loading (snd (snd (handleSubmit api (br, st) outcome)))"
  using assms by (auto simp: handleSubmit_def Let_def)

lemma try_block_caught:
  "fst (try_block st rs) = Some e \<longleftrightarrow>
     (\<exists>err. Promise_all (overviewRes rs) (assetsRes rs) (rewardsRes rs) (perfRes rs) = Rejected err \<and>
            e = AxiosError err) \<or>
     (\<exists>ov asts rw pf.
        Promise_all (overviewRes rs) (assetsRes rs) (rewardsRes rs) (perfRes rs)
          = Resolved (ov, asts, rw, pf) \<and>
        (ov = NullBody \<or> asts = NullBody \<or> rw = NullBody \<or> pf = NullBody) \<and> e = TypeError)"
  by (auto simp: try_block_def Let_def split: settled.splits body.splits)

lemma fetchDashboardData_caught:
  assumes "fst (try_block st rs) = Some e"
  shows "fst (snd (fetchDashboardData api (br, st) rs)) = catch_block e br"
  using assms by (cases "try_block st rs") (simp add: fetchDashboardData_def Let_def)

text \<open>
  C7, as the code has it. A login or signup that fails, by a response without
  \<^verbatim>\<open>success\<close> or by a rejected request of any status, leaves the browser as it was
  (storage and location) and puts a non-empty message into the alert of the form,
  whose submit button is enabled again. On the dashboard, whenever the \<^verbatim>\<open>catch\<close>
  block receives an error whose status is not 401, be it a rejected request with
  another status or with none, or a \<^verbatim>\<open>TypeError\<close> on a reply with a null body, the
  handler writes one line to the console and does nothing else to the browser: the
  token stays in local storage and the location stays.
\<close>

theorem other_failures_keep_session:
  "(outcome = Rejected err \<or> (outcome = Resolved d \<and> \<not> data_success d) \<longrightarrow>
      fst (snd (handleSubmit api (br, lst) outcome)) = br \<and>
      (\<exists>msg. msg \<noteq> [] \<and> LoginPage_alert (snd (snd (handleSubmit api (br, lst) outcome))) = Some msg) \<and>
      submit_enabled (snd (snd (handleSubmit api (br, lst) outcome)))) \<and>
   (fst (try_block dst rs) = Some e \<and> status_of e \<noteq> Some 401 \<longrightarrow>
      fst (snd (fetchDashboardData api (br, dst) rs)) =
        br\<lparr>console := console br @ [''Error fetching dashboard data:'']\<rparr> \<and>
      localStorage (fst (snd (fetchDashboardData api (br, dst) rs))) = localStorage br \<and>
      location (fst (snd (fetchDashboardData api (br, dst) rs))) = location br)"
proof (intro conjI impI)
  assume f: "outcome = Rejected err \<or> (outcome = Resolved d \<and> \<not> data_success d)"
  show "fst (snd (handleSubmit api (br, lst) outcome)) = br"
    by (rule handleSubmit_failure(1) [OF f])
  have "error (snd (snd (handleSubmit api (br, lst) outcome))) \<noteq> []"
    unfolding handleSubmit_failure(2) [OF f]
    by (simp add: or_else_nonempty split: settled.split)
  then show "\<exists>msg. msg \<noteq> [] \<and>
      LoginPage_alert (snd (snd (handleSubmit api (br, lst) outcome))) = Some msg"
    by (simp add: LoginPage_alert_def)
  show "submit_enabled (snd (snd (handleSubmit api (br, lst) outcome)))"
    using handleSubmit_failure(3) [OF f] by (simp add: submit_enabled_def)
next
  assume c: "fst (try_block dst rs) = Some e \<and> status_of e \<noteq> Some 401"
  then have b: "fst (snd (fetchDashboardData api (br, dst) rs)) =
      br\<lparr>console := console br @ [''Error fetching dashboard data:'']\<rparr>"
    by (simp add: fetchDashboardData_caught catch_block_def Let_def)
  show "fst (snd (fetchDashboardData api (br, dst) rs)) =
      br\<lparr>console := console br @ [''Error fetching dashboard data:'']\<rparr>"
    by (rule b)
  show "localStorage (fst (snd (fetchDashboardData api (br, dst) rs))) = localStorage br"
    by (simp add: b)
  show "location (fst (snd (fetchDashboardData api (br, dst) rs))) = location br"
    by (simp add: b)
qed

theorem other_failures_keep_session_witness:
  "\<not> data_success login_refused \<and>
   fst (snd (handleSubmit (API None) (logged_in, LoginPage_init) (Resolved login_refused))) = logged_in \<and>
   LoginPage_alert (snd (snd (handleSubmit (API None) (logged_in, LoginPage_init)
      (Resolved login_refused)))) = Some ''Invalid credentials'' \<and>
   fst (try_block DashboardPage_init one_server_error) = Some (AxiosError server_error) \<and>
   status_of (AxiosError server_error) \<noteq> Some 401 \<and>
   localStorage (fst (snd (fetchDashboardData (API None) (logged_in, DashboardPage_init)
      one_server_error))) = localStorage logged_in \<and>
   location (fst (snd (fetchDashboardData (API None) (logged_in, DashboardPage_init)
      one_server_error))) = ''/dashboard'' \<and>
   try_block DashboardPage_init null_assets_body
     = (Some TypeError, DashboardPage_init\<lparr>overview := Some ''{}''\<rparr>) \<and>
   status_of TypeError \<noteq> Some 401 \<and>
   localStorage (fst (snd (fetchDashboardData (API None) (logged_in, DashboardPage_init)
      null_assets_body))) = localStorage logged_in \<and>
   location (fst (snd (fetchDashboardData (API None) (logged_in, DashboardPage_init)
      null_assets_body))) = ''/dashboard''"
proof -
  have f: "\<not> data_success login_refused"
    by (simp add: login_refused_def)
  have p: "fst (try_block DashboardPage_init one_server_error) = Some (AxiosError server_error)"
    by (simp add: try_block_def one_server_error_def)
  have q: "status_of (AxiosError server_error) \<noteq> Some 401"
    by (simp add: status_of_def server_error_def)
  have n: "try_block DashboardPage_init null_assets_body
     = (Some TypeError, DashboardPage_init\<lparr>overview := Some ''{}''\<rparr>)"
    by (simp add: try_block_def null_assets_body_def Let_def)
  have t: "status_of TypeError \<noteq> Some 401"
    by (simp add: status_of_def)
  have a: "LoginPage_alert (snd (snd (handleSubmit (API None) (logged_in, LoginPage_init)
      (Resolved login_refused)))) = Some ''Invalid credentials''"
    by (simp add: handleSubmit_def Let_def LoginPage_alert_def login_refused_def or_else_def)
  have l: "location logged_in = ''/dashboard''"
    by (simp add: logged_in_def)
  show ?thesis
    using f p q n t a l
      other_failures_keep_session [of "Resolved login_refused" server_error login_refused
        "API None" logged_in LoginPage_init DashboardPage_init one_server_error
        "AxiosError server_error"]
      other_failures_keep_session [of "Resolved login_refused" server_error login_refused
        "API None" logged_in LoginPage_init DashboardPage_init null_assets_body TypeError]
    by simp
qed

text \<open>
  On the dashboard such a failure is not displayed: no element of the page reads an
  error. After the assets request is answered 500 on a freshly mounted dashboard, the
  page state is the initial one and the page still renders the loading screen; the
  error went to the console only.
\<close>

theorem dashboard_error_not_displayed_counterexample:
  "snd (fetchDashboardData (API None) (logged_in, DashboardPage_init) one_server_error) =
     (logged_in\<lparr>console := [''Error fetching dashboard data:'']\<rparr>, DashboardPage_init) \<and>
   DashboardPage_render (snd (snd (fetchDashboardData (API None) (logged_in, DashboardPage_init)
      one_server_error))) = LoadingScreen"
  by (simp add: fetchDashboardData_def try_block_def catch_block_def status_of_def Let_def
      one_server_error_def server_error_def logged_in_def DashboardPage_render_def
      DashboardPage_init_def)

section \<open>Session tokens\<close>

text \<open>
  C1. \<open>validate\<close> returns an identity exactly when the signature verifies against the
  server secret and the expiry has not elapsed, and the identity is the one embedded
  in the token. A token whose signature verifies and whose expiry is in the past
  fails with \<open>TokenExpired\<close>; a token that is malformed or whose signature does not
  verify fails with \<open>TokenInvalid\<close>, whatever its expiry.
\<close>

theorem validate_spec:
  "((\<exists>i. validate sg srv now tok = Inr i) \<longleftrightarrow>
      signature_verifies sg srv tok \<and> \<not> expiry_elapsed now tok) \<and>
   (\<forall>i. validate sg srv now tok = Inr i \<longrightarrow> embedded_identity tok = Some i) \<and>
   (signature_verifies sg srv tok \<and> expiry_elapsed now tok \<longrightarrow>
      validate sg srv now tok = Inl TokenExpired) \<and>
   (\<not> signature_verifies sg srv tok \<longrightarrow> validate sg srv now tok = Inl TokenInvalid) \<and>
   validate sg srv now (Malformed raw) = Inl TokenInvalid \<and>
   (s \<noteq> sg (secret srv) c \<longrightarrow> validate sg srv now (Signed c s) = Inl TokenInvalid)"
  by (cases tok)
    (auto simp: validate_def signature_verifies_def expiry_elapsed_def embedded_identity_def)

theorem validate_spec_witness:
  "signature_verifies toy_signer empty_server alice_token \<and>
   \<not> expiry_elapsed 5000 alice_token \<and>
   validate toy_signer empty_server 5000 alice_token = Inr (identity_of alice) \<and>
   expiry_elapsed 700000 alice_token \<and>
   validate toy_signer empty_server 700000 alice_token = Inl TokenExpired \<and>
   ''forged'' \<noteq> toy_signer (secret empty_server)
       \<lparr>claim_identity = identity_of alice, expiry = 1000 + seven_days\<rparr> \<and>
   validate toy_signer empty_server 5000
       (Signed \<lparr>claim_identity = identity_of alice, expiry = 1000 + seven_days\<rparr> ''forged'')
     = Inl TokenInvalid"
proof -
  have v: "signature_verifies toy_signer empty_server alice_token"
    by (simp add: signature_verifies_def alice_token_def issue_def Let_def)
  have fresh: "\<not> expiry_elapsed 5000 alice_token"
    by (simp add: expiry_elapsed_def alice_token_def issue_def Let_def seven_days_def)
  have old: "expiry_elapsed 700000 alice_token"
    by (simp add: expiry_elapsed_def alice_token_def issue_def Let_def seven_days_def)
  have e: "embedded_identity alice_token = Some (identity_of alice)"
    by (simp add: embedded_identity_def alice_token_def issue_def Let_def)
  have forged: "''forged'' \<noteq> toy_signer (secret empty_server)
      \<lparr>claim_identity = identity_of alice, expiry = 1000 + seven_days\<rparr>"
    by (simp add: toy_signer_def empty_server_def)
  have a: "validate toy_signer empty_server 5000 alice_token = Inr (identity_of alice)"
    using validate_spec [of toy_signer empty_server 5000 alice_token] v fresh e by auto
  have b: "validate toy_signer empty_server 700000 alice_token = Inl TokenExpired"
    using validate_spec [of toy_signer empty_server 700000 alice_token] v old by blast
  have c: "validate toy_signer empty_server 5000
      (Signed \<lparr>claim_identity = identity_of alice, expiry = 1000 + seven_days\<rparr> ''forged'')
      = Inl TokenInvalid"
    using validate_spec [of toy_signer empty_server 5000 _ _ "''forged''"
        "\<lparr>claim_identity = identity_of alice, expiry = 1000 + seven_days\<rparr>"] forged
    by blast
  show ?thesis
    using v fresh old forged a b c by blast
qed

section \<open>The credential store\<close>

lemma find_email_None:
  "find (\<lambda>u. user_email u = em) xs = None \<longleftrightarrow> em \<notin> user_email ` set xs"
  by (induction xs) auto

lemma find_email_Some:
  "find (\<lambda>u. user_email u = em) xs = Some u \<Longrightarrow> u \<in> set xs \<and> user_email u = em"
  by (induction xs) (auto split: if_splits)

lemma find_email_unique:
  "distinct (map user_email xs) \<Longrightarrow> u \<in> set xs \<Longrightarrow>
   find (\<lambda>v. user_email v = user_email u) xs = Some u"
  by (induction xs) (auto simp: image_iff)

lemma find_snoc_None:
  "find P xs = None \<Longrightarrow> find P (xs @ [x]) = (if P x then Some x else None)"
  by (induction xs) (auto split: if_splits)

lemma one_record_for_email:
  "distinct (map user_email xs) \<Longrightarrow> em \<in> user_email ` set xs \<Longrightarrow>
   length (filter (\<lambda>u. user_email u = em) xs) = 1"
proof (induction xs)
  case Nil
  then show ?case by simp
next
  case (Cons x xs)
  show ?case
  proof (cases "user_email x = em")
    case True
    with Cons.prems have "filter (\<lambda>u. user_email u = em) xs = []"
      by (auto simp: filter_empty_conv image_iff)
    with True show ?thesis by simp
  next
    case False
    with Cons show ?thesis by auto
  qed
qed

lemma register_duplicate:
  "em \<in> user_email ` set (users srv) \<Longrightarrow>
   register f env srv em un pw = (Inl DuplicateEmail, srv)"
  by (auto simp: register_def find_email_None split: option.split)

lemma register_new:
  "em \<notin> user_email ` set (users srv) \<Longrightarrow>
   register f env srv em un pw =
     (Inr \<lparr>user_id = new_id env, user_email = em, user_username = un,
           user_password_hash = hash_password f (new_salt env) pw, created_at = clock env\<rparr>,
      srv\<lparr>users := users srv @
           [\<lparr>user_id = new_id env, user_email = em, user_username = un,
             user_password_hash = hash_password f (new_salt env) pw, created_at = clock env\<rparr>]\<rparr>)"
  using find_email_None [of em "users srv"] by (simp add: register_def Let_def)

lemma register_one_per_email:
  "one_per_email srv \<Longrightarrow> one_per_email (snd (register f env srv em un pw))"
  by (cases "em \<in> user_email ` set (users srv)")
    (simp_all add: register_duplicate register_new one_per_email_def)

lemma register_has_email:
  "em \<in> user_email ` set (users (snd (register f env srv em un pw)))"
  by (cases "em \<in> user_email ` set (users srv)")
    (simp_all add: register_duplicate register_new)

lemma registrations_one_per_email:
  "one_per_email srv \<Longrightarrow> one_per_email (registrations f srv reqs)"
  by (induction f srv reqs rule: registrations.induct) (simp_all add: register_one_per_email)

lemma check_hash_password: "check_password f pw (hash_password f salt pw)"
  by (simp add: check_password_def hash_password_def)

text \<open>
  C2. If a user with the email exists, \<open>register\<close> fails with \<open>DuplicateEmail\<close> and
  the server is exactly as before. Otherwise it returns a new User with that email
  and username whose stored hash is the salted hash of the password at cost 12 (a
  hash the password checks against), and the store is the old one with this User
  appended. Either way a store with one record per email stays so and afterwards
  holds exactly one record for the email; hence every store reached from the empty
  one by any run of registrations has one record per email.
\<close>

theorem register_spec:
  "(em \<in> user_email ` set (users srv) \<longrightarrow>
      register f env srv em un pw = (Inl DuplicateEmail, srv)) \<and>
   (em \<notin> user_email ` set (users srv) \<longrightarrow>
      (\<exists>u. register f env srv em un pw = (Inr u, srv\<lparr>users := users srv @ [u]\<rparr>) \<and>
           user_email u = em \<and> user_username u = un \<and>
           user_password_hash u = hash_password f (new_salt env) pw \<and>
           hash_cost (user_password_hash u) = 12 \<and>
           hash_salt (user_password_hash u) = new_salt env \<and>
           check_password f pw (user_password_hash u))) \<and>
   (one_per_email srv \<longrightarrow>
      one_per_email (snd (register f env srv em un pw)) \<and>
      length (filter (\<lambda>u. user_email u = em) (users (snd (register f env srv em un pw)))) = 1) \<and>
   one_per_email (registrations f (srv\<lparr>users := []\<rparr>) reqs)"
proof (intro conjI impI)
  assume "em \<in> user_email ` set (users srv)"
  then show "register f env srv em un pw = (Inl DuplicateEmail, srv)"
    by (rule register_duplicate)
next
  assume "em \<notin> user_email ` set (users srv)"
  then show "\<exists>u. register f env srv em un pw = (Inr u, srv\<lparr>users := users srv @ [u]\<rparr>) \<and>
           user_email u = em \<and> user_username u = un \<and>
           user_password_hash u = hash_password f (new_salt env) pw \<and>
           hash_cost (user_password_hash u) = 12 \<and>
           hash_salt (user_password_hash u) = new_salt env \<and>
           check_password f pw (user_password_hash u)"
    by (simp add: register_new check_hash_password) (simp add: hash_password_def cost_factor_def)
next
  assume inv: "one_per_email srv"
  then show inv': "one_per_email (snd (register f env srv em un pw))"
    by (rule register_one_per_email)
  show "length (filter (\<lambda>u. user_email u = em) (users (snd (register f env srv em un pw)))) = 1"
    using inv' register_has_email [of em f env srv un pw]
    unfolding one_per_email_def by (rule one_record_for_email)
next
  show "one_per_email (registrations f (srv\<lparr>users := []\<rparr>) reqs)"
    by (rule registrations_one_per_email) (simp add: one_per_email_def)
qed

theorem register_spec_witness:
  "''a@x.com'' \<notin> user_email ` set (users empty_server) \<and>
   register toy_kdf env1 empty_server ''a@x.com'' ''a'' ''pw123456''
     = (Inr alice, empty_server\<lparr>users := [alice]\<rparr>) \<and>
   ''a@x.com'' \<in> user_email ` set (users (empty_server\<lparr>users := [alice]\<rparr>)) \<and>
   register toy_kdf env2 (empty_server\<lparr>users := [alice]\<rparr>) ''a@x.com'' ''b'' ''other''
     = (Inl DuplicateEmail, empty_server\<lparr>users := [alice]\<rparr>) \<and>
   one_per_email (empty_server\<lparr>users := [alice]\<rparr>)"
proof -
  have new: "''a@x.com'' \<notin> user_email ` set (users empty_server)"
    by (simp add: empty_server_def)
  have old: "''a@x.com'' \<in> user_email ` set (users (empty_server\<lparr>users := [alice]\<rparr>))"
    by (simp add: alice_def)
  have inv: "one_per_email (empty_server\<lparr>users := [alice]\<rparr>)"
    by (simp add: one_per_email_def)
  have a: "register toy_kdf env1 empty_server ''a@x.com'' ''a'' ''pw123456''
     = (Inr alice, empty_server\<lparr>users := [alice]\<rparr>)"
    by (simp add: register_def Let_def empty_server_def env1_def alice_def)
  have b: "register toy_kdf env2 (empty_server\<lparr>users := [alice]\<rparr>) ''a@x.com'' ''b'' ''other''
     = (Inl DuplicateEmail, empty_server\<lparr>users := [alice]\<rparr>)"
    using register_spec [of "''a@x.com''" "empty_server\<lparr>users := [alice]\<rparr>" toy_kdf env2
        "''b''" "''other''" "[]"] old
    by blast
  show ?thesis
    using new old inv a b by blast
qed

text \<open>
  C3. \<open>verify\<close> fails with \<open>InvalidCredentials\<close> exactly when no user has the email
  or the hash comparison with the matching user's stored hash fails, and returns the
  matching user otherwise. A user just registered verifies with the email and
  password of the registration; in a store with one record per email every stored
  user verifies with the password its hash was made from. A token issued for a user
  is accepted by \<open>validate\<close> at every time up to its expiry, seven days after the
  issue, and gives back that user's id and email.
\<close>

theorem verify_and_round_trip:
  "(verify f srv em pw = Inl InvalidCredentials \<longleftrightarrow>
      em \<notin> user_email ` set (users srv) \<or>
      (\<exists>u. find (\<lambda>u. user_email u = em) (users srv) = Some u \<and>
           \<not> check_password f pw (user_password_hash u))) \<and>
   (\<forall>u. find (\<lambda>u. user_email u = em) (users srv) = Some u \<and>
        check_password f pw (user_password_hash u) \<longrightarrow>
        verify f srv em pw = Inr u \<and> u \<in> set (users srv) \<and> user_email u = em) \<and>
   (\<forall>u srv'. register f env srv em un pw = (Inr u, srv') \<longrightarrow> verify f srv' em pw = Inr u) \<and>
   (\<forall>u salt. one_per_email srv \<and> u \<in> set (users srv) \<and>
        user_password_hash u = hash_password f salt pw \<longrightarrow>
        verify f srv (user_email u) pw = Inr u) \<and>
   (\<forall>u t. t \<le> now + seven_days \<longrightarrow>
        validate sg srv t (issue sg srv now u) = Inr (identity_of u) \<and>
        ident_id (identity_of u) = user_id u \<and> ident_email (identity_of u) = user_email u)"
proof (intro conjI allI impI)
  show "verify f srv em pw = Inl InvalidCredentials \<longleftrightarrow>
      em \<notin> user_email ` set (users srv) \<or>
      (\<exists>u. find (\<lambda>u. user_email u = em) (users srv) = Some u \<and>
           \<not> check_password f pw (user_password_hash u))"
    using find_email_None [of em "users srv"]
    by (auto simp: verify_def split: option.splits)
next
  fix u
  assume h: "find (\<lambda>u. user_email u = em) (users srv) = Some u \<and>
        check_password f pw (user_password_hash u)"
  then show "verify f srv em pw = Inr u"
    by (simp add: verify_def)
  from h show "u \<in> set (users srv)" and "user_email u = em"
    using find_email_Some [of em "users srv" u] by simp_all
next
  fix u srv'
  assume r: "register f env srv em un pw = (Inr u, srv')"
  have new: "em \<notin> user_email ` set (users srv)"
  proof
    assume "em \<in> user_email ` set (users srv)"
    then have "register f env srv em un pw = (Inl DuplicateEmail, srv)"
      by (rule register_duplicate)
    with r show False by simp
  qed
  then have nf: "find (\<lambda>u. user_email u = em) (users srv) = None"
    by (simp add: find_email_None)
  from r new have u: "u = \<lparr>user_id = new_id env, user_email = em, user_username = un,
           user_password_hash = hash_password f (new_salt env) pw, created_at = clock env\<rparr>"
    and s: "srv' = srv\<lparr>users := users srv @ [u]\<rparr>"
    by (auto simp: register_new)
  have "find (\<lambda>u. user_email u = em) (users srv') = Some u"
    using find_snoc_None [OF nf, of u] by (simp add: s) (simp add: u)
  moreover have "check_password f pw (user_password_hash u)"
    by (simp add: u check_hash_password)
  ultimately show "verify f srv' em pw = Inr u"
    by (simp add: verify_def)
next
  fix u salt
  assume h: "one_per_email srv \<and> u \<in> set (users srv) \<and>
        user_password_hash u = hash_password f salt pw"
  then have "find (\<lambda>v. user_email v = user_email u) (users srv) = Some u"
    by (simp add: one_per_email_def find_email_unique)
  with h show "verify f srv (user_email u) pw = Inr u"
    by (simp add: verify_def check_hash_password)
next
  fix u :: user and t :: int
  assume "t \<le> now + seven_days"
  then show "validate sg srv t (issue sg srv now u) = Inr (identity_of u)"
    by (simp add: validate_def issue_def Let_def)
  show "ident_id (identity_of u) = user_id u" and "ident_email (identity_of u) = user_email u"
    by (simp_all add: identity_of_def)
qed

theorem verify_and_round_trip_witness:
  "register toy_kdf env1 empty_server ''a@x.com'' ''a'' ''pw123456''
     = (Inr alice, empty_server\<lparr>users := [alice]\<rparr>) \<and>
   verify toy_kdf (empty_server\<lparr>users := [alice]\<rparr>) ''a@x.com'' ''pw123456'' = Inr alice \<and>
   verify toy_kdf (empty_server\<lparr>users := [alice]\<rparr>) ''a@x.com'' ''wrong'' = Inl InvalidCredentials \<and>
   verify toy_kdf (empty_server\<lparr>users := [alice]\<rparr>) ''b@x.com'' ''pw123456'' = Inl InvalidCredentials \<and>
   (5000::int) \<le> 1000 + seven_days \<and>
   validate toy_signer (empty_server\<lparr>users := [alice]\<rparr>) 5000
     (issue toy_signer (empty_server\<lparr>users := [alice]\<rparr>) 1000 alice) = Inr (identity_of alice)"
proof -
  have r: "register toy_kdf env1 empty_server ''a@x.com'' ''a'' ''pw123456''
     = (Inr alice, empty_server\<lparr>users := [alice]\<rparr>)"
    by (simp add: register_def Let_def empty_server_def env1_def alice_def)
  have t: "(5000::int) \<le> 1000 + seven_days"
    by (simp add: seven_days_def)
  note th = verify_and_round_trip [of toy_kdf empty_server "''a@x.com''" "''pw123456''" env1 "''a''"
      1000 toy_signer]
  have a: "verify toy_kdf (empty_server\<lparr>users := [alice]\<rparr>) ''a@x.com'' ''pw123456'' = Inr alice"
    using th r by blast
  have b: "verify toy_kdf (empty_server\<lparr>users := [alice]\<rparr>) ''a@x.com'' ''wrong'' = Inl InvalidCredentials"
    by (simp add: verify_def alice_def check_password_def hash_password_def toy_kdf_def)
  have c: "verify toy_kdf (empty_server\<lparr>users := [alice]\<rparr>) ''b@x.com'' ''pw123456'' = Inl InvalidCredentials"
    by (simp add: verify_def alice_def)
  have d: "validate toy_signer (empty_server\<lparr>users := [alice]\<rparr>) 5000
     (issue toy_signer (empty_server\<lparr>users := [alice]\<rparr>) 1000 alice) = Inr (identity_of alice)"
    using verify_and_round_trip [of toy_kdf "empty_server\<lparr>users := [alice]\<rparr>" "''a@x.com''"
        "''pw123456''" env1 "''a''" 1000 toy_signer] t
    by blast
  show ?thesis
    using r t a b c d by blast
qed

end
